theory Spec2Isabelle
  imports Main "HOL-Library.Char_ord" "HOL-Library.List_Lexorder"
begin

section \<open>Credential store and login session\<close>

text \<open>
  The user store \<open>USERS\<close> is a dictionary from user name to a user entry; the file
  \<open>user_db.json\<close> holds the dictionary written by the last \<open>save_users\<close>, or nothing
  when no write has happened yet. The digest \<open>hashlib.sha256(p.encode()).hexdigest()\<close>
  is a library function: it is the parameter \<open>H\<close> of every definition that hashes.
\<close>

record user =
  name :: string
  password_hash :: string
  role :: "string option"

type_synonym users = "string \<rightharpoonup> user"

record auth =
  authenticated :: bool
  username :: "string option"
  failed_attempts :: nat
  is_admin :: bool
  show_register :: bool
  user_added :: bool
  user_removed :: bool

record app =
  USERS :: users
  user_db :: "users option"
  session :: auth

definition initial_auth :: auth where
  "initial_auth = \<lparr>authenticated = False, username = None, failed_attempts = 0,
     is_admin = False, show_register = False, user_added = False, user_removed = False\<rparr>"

definition default_users :: "(string \<Rightarrow> string) \<Rightarrow> users" where
  "default_users H = [''admin'' \<mapsto>
     \<lparr>name = ''Administrator'', password_hash = H ''admin123'', role = Some ''admin''\<rparr>]"

definition load_users :: "(string \<Rightarrow> string) \<Rightarrow> users option \<Rightarrow> users" where
  "load_users H file = (case file of Some us \<Rightarrow> us | None \<Rightarrow> default_users H)"

definition save_users :: "users \<Rightarrow> app \<Rightarrow> app" where
  "save_users us s = s\<lparr>user_db := Some us\<rparr>"

text \<open>\<open>register_user\<close> returns the pair (success, message) and the state it leaves.\<close>

definition register_user ::
  "(string \<Rightarrow> string) \<Rightarrow> string \<Rightarrow> string \<Rightarrow> string \<Rightarrow> string \<Rightarrow> app \<Rightarrow> (bool \<times> string) \<times> app" where
  "register_user H uname nm password rl s =
     (if USERS s uname \<noteq> None then ((False, ''Username already exists!''), s)
      else if uname = [] \<or> password = [] then
        ((False, ''Username and password are required!''), s)
      else
        (let s1 = s\<lparr>USERS := (USERS s)(uname \<mapsto>
                    \<lparr>name = nm, password_hash = H password, role = Some rl\<rparr>)\<rparr>;
             s2 = save_users (USERS s1) s1;
             s3 = s2\<lparr>session := (session s2)\<lparr>user_added := True\<rparr>\<rparr>
         in ((True, ''User '' @ uname @ '' registered successfully!''), s3)))"

text \<open>
  How a call of \<open>authenticate\<close> leaves the script run: \<open>st.rerun()\<close> after a login,
  \<open>st.stop()\<close> after the third failure (with the message shown before it), or a normal
  return after an ordinary failure (with its message).
\<close>

datatype flow = Rerun | Stop string | Return string

definition login_failed :: "auth \<Rightarrow> auth \<times> flow" where
  "login_failed a =
     (let a1 = a\<lparr>failed_attempts := failed_attempts a + 1\<rparr>
      in if failed_attempts a1 \<ge> 3
         then (a1, Stop ''Too many failed attempts. Please try again later.'')
         else (a1, Return ''Invalid username or password''))"

definition authenticate ::
  "(string \<Rightarrow> string) \<Rightarrow> users \<Rightarrow> string \<Rightarrow> string \<Rightarrow> auth \<Rightarrow> auth \<times> flow" where
  "authenticate H us uname password a =
     (case us uname of
        Some u \<Rightarrow>
          if password_hash u = H password then
            (\<lparr>authenticated = True, username = Some uname, failed_attempts = 0,
              is_admin = ((case role u of Some r \<Rightarrow> r | None \<Rightarrow> ''user'') = ''admin''),
              show_register = False, user_added = False, user_removed = False\<rparr>, Rerun)
          else login_failed a
      | None \<Rightarrow> login_failed a)"

text \<open>
  One script run in which the login form is submitted: the form is on the page only
  while the session is not authenticated and the register form is not the one shown;
  the session state is what the next run starts from.
\<close>

definition login_run :: "(string \<Rightarrow> string) \<Rightarrow> users \<Rightarrow> auth \<Rightarrow> string \<times> string \<Rightarrow> auth" where
  "login_run H us a cred =
     (if authenticated a \<or> show_register a then a
      else fst (authenticate H us (fst cred) (snd cred) a))"

definition login_runs :: "(string \<Rightarrow> string) \<Rightarrow> users \<Rightarrow> auth \<Rightarrow> (string \<times> string) list \<Rightarrow> auth" where
  "login_runs H us a creds = foldl (login_run H us) a creds"

section \<open>Text cells\<close>

text \<open>
  A cell of a text column is \<open>Some s\<close>, or \<open>None\<close> when the cell is missing (NaN). The
  \<open>.str\<close> methods give NaN on a missing cell, and a comparison with NaN is false.
  The Workflow State and Department columns are text columns (dtype object, what
  \<open>read_excel\<close> gives a column in which some cell of the sheet holds text). The dtype
  of the Responsibility Areas column is part of the model of the plant summary, where
  the \<open>.str\<close> accessor checks it.
  Strings are ASCII text: \<open>upper\<close> and \<open>lower\<close> change the letters a-z and A-Z only.
\<close>

text \<open>
  The dtype \<open>read_excel\<close> gives a column whose cells are text or empty: object when
  some cell holds text, and for a sheet without rows; float64 (all NaN) when the sheet
  has rows and every cell of the column is empty. Selecting rows keeps the dtype, so
  the column of \<open>filtered_df\<close> has the dtype of the column of the sheet.
\<close>

datatype dtype = Object | Float64

definition column_dtype :: "string option list \<Rightarrow> dtype" where
  "column_dtype cells =
     (if cells = [] \<or> list_ex (\<lambda>cell. cell \<noteq> None) cells then Object else Float64)"

datatype py_error = AttributeError | Re_error | Not_modelled

text \<open>
  \<open>column.str\<close>: the accessor gives the column to the string methods when the column
  is of dtype object, and raises \<open>AttributeError\<close> (Can only use .str accessor with
  string values) on a float64 column.
\<close>

definition str_accessor :: "dtype \<Rightarrow> string option list \<Rightarrow> py_error + string option list" where
  "str_accessor dt column = (if dt = Object then Inr column else Inl AttributeError)"

definition upper_char :: "char \<Rightarrow> char" where
  "upper_char c = (let n = (of_char c :: nat) in if 97 \<le> n \<and> n \<le> 122 then char_of (n - 32) else c)"

definition lower_char :: "char \<Rightarrow> char" where
  "lower_char c = (let n = (of_char c :: nat) in if 65 \<le> n \<and> n \<le> 90 then char_of (n + 32) else c)"

definition upper :: "string \<Rightarrow> string" where
  "upper s = map upper_char s"

definition isspace :: "char \<Rightarrow> bool" where
  "isspace c = (let n = (of_char c :: nat) in (9 \<le> n \<and> n \<le> 13) \<or> (28 \<le> n \<and> n \<le> 32))"

definition strip :: "string \<Rightarrow> string" where
  "strip s = rev (dropWhile isspace (rev (dropWhile isspace s)))"

definition str_upper :: "string option \<Rightarrow> string option" where
  "str_upper cell = map_option upper cell"

definition cell_eq :: "string option \<Rightarrow> string \<Rightarrow> bool" where
  "cell_eq cell s = (case cell of None \<Rightarrow> False | Some t \<Rightarrow> t = s)"

definition startswith :: "string \<Rightarrow> string \<Rightarrow> bool" where
  "startswith s p = (take (length p) s = p)"

text \<open>\<open>Series.str.startswith(p, na=False)\<close>, cell by cell.\<close>

definition str_startswith :: "string \<Rightarrow> string option list \<Rightarrow> bool list" where
  "str_startswith p column = map (\<lambda>cell. case cell of None \<Rightarrow> False | Some s \<Rightarrow> startswith s p) column"

subsection \<open>Patterns of \<open>str.contains\<close>\<close>

text \<open>
  \<open>Series.str.contains(pat, case, na)\<close> is called without \<open>regex=False\<close>, so \<open>pat\<close> is a
  regular expression and the cell matches when \<open>re.search\<close> finds a match somewhere in
  it. The patterns of the program are made of ordinary characters and parentheses: an
  ordinary character matches itself, \<open>(\<close>...\<open>)\<close> is a group that matches what its body
  matches. A pattern with another special character is outside the fragment modelled
  here; unbalanced parentheses are \<open>re.error\<close>.
\<close>

datatype rx = Lit char | Group "rx list"

definition special :: "char \<Rightarrow> bool" where
  "special c = (c \<in> set ''.^$*+?{}[]|'' \<or> c = CHR 0x5C)"

fun re_parse :: "rx list list \<Rightarrow> string \<Rightarrow> py_error + rx list" where
  "re_parse stack [] = (case stack of [cur] \<Rightarrow> Inr (rev cur) | _ \<Rightarrow> Inl Re_error)"
| "re_parse stack (c # cs) =
     (if c = CHR ''('' then re_parse ([] # stack) cs
      else if c = CHR '')'' then
        (case stack of
           cur # parent # rest \<Rightarrow> re_parse ((Group (rev cur) # parent) # rest) cs
         | _ \<Rightarrow> Inl Re_error)
      else if special c then Inl Not_modelled
      else (case stack of
              cur # rest \<Rightarrow> re_parse ((Lit c # cur) # rest) cs
            | [] \<Rightarrow> Inl Re_error))"

definition re_compile :: "string \<Rightarrow> py_error + rx list" where
  "re_compile pat = re_parse [[]] pat"

text \<open>
  \<open>re_match ic p s\<close> matches the sequence \<open>p\<close> at the start of \<open>s\<close> and returns the rest
  of \<open>s\<close>; \<open>ic\<close> is \<open>re.IGNORECASE\<close>.
\<close>

function re_match :: "bool \<Rightarrow> rx list \<Rightarrow> string \<Rightarrow> string option" where
  "re_match ic [] s = Some s"
| "re_match ic (Lit c # p) s =
     (case s of
        [] \<Rightarrow> None
      | x # xs \<Rightarrow>
          if (if ic then lower_char x = lower_char c else x = c) then re_match ic p xs
          else None)"
| "re_match ic (Group g # p) s =
     (case re_match ic g s of None \<Rightarrow> None | Some s' \<Rightarrow> re_match ic p s')"
  by pat_completeness auto
termination
  by (relation "measure (\<lambda>(ic, p, s). size_list size p)") auto

fun re_search :: "bool \<Rightarrow> rx list \<Rightarrow> string \<Rightarrow> bool" where
  "re_search ic p [] = (re_match ic p [] \<noteq> None)"
| "re_search ic p (x # xs) = (re_match ic p (x # xs) \<noteq> None \<or> re_search ic p xs)"

text \<open>
  \<open>Series.str.contains(pat, case=cs, na=False)\<close>: the pattern is compiled once, then
  searched in every cell.
\<close>

definition str_contains :: "string \<Rightarrow> bool \<Rightarrow> string option list \<Rightarrow> py_error + bool list" where
  "str_contains pat cs column =
     (case re_compile pat of
        Inl e \<Rightarrow> Inl e
      | Inr p \<Rightarrow> Inr (map (\<lambda>cell. case cell of None \<Rightarrow> False | Some s \<Rightarrow> re_search (\<not> cs) p s)
                        column))"

section \<open>Permit records and the filter stage\<close>

text \<open>
  One row of the uploaded sheet, with the columns the script reads and the columns it
  adds (\<open>Closed\<close>, \<open>Area\<close>, \<open>Status\<close>); every added column is assigned before it is
  read. \<open>Created_Date\<close> is the column after \<open>pd.to_datetime(..., errors='coerce')\<close>: a
  timestamp in nanoseconds, or \<open>None\<close> (NaT) for a cell that is missing or did not parse.
\<close>

record permit =
  Permit_Number :: "string option"
  Department :: "string option"
  Responsibility_Areas :: "string option"
  Workflow_State :: "string option"
  Created_Date :: "int option"
  Closed :: bool
  Area :: string
  Status :: "string option"

text \<open>Boolean indexing \<open>df[mask]\<close>: the rows whose mask entry is true, in their order.\<close>

definition select_rows :: "'a list \<Rightarrow> bool list \<Rightarrow> 'a list" where
  "select_rows rows keep = map fst (filter snd (zip rows keep))"

text \<open>\<open>mask1 & mask2\<close> on two boolean columns.\<close>

definition mask_and :: "bool list \<Rightarrow> bool list \<Rightarrow> bool list" where
  "mask_and m1 m2 = map (\<lambda>(x, y). x \<and> y) (zip m1 m2)"

definition mask_or :: "bool list \<Rightarrow> bool list \<Rightarrow> bool list" where
  "mask_or m1 m2 = map (\<lambda>(x, y). x \<or> y) (zip m1 m2)"

text \<open>Line 254 and line 381: \<open>df["Closed"] = df["Workflow State"].str.upper() == "CLOSED"\<close>.\<close>

definition add_closed :: "permit list \<Rightarrow> permit list" where
  "add_closed df = map (\<lambda>r. r\<lparr>Closed := cell_eq (str_upper (Workflow_State r)) ''CLOSED''\<rparr>) df"

text \<open>
  A date picked in a \<open>st.date_input\<close> is a calendar day, counted here in days since the
  epoch; \<open>pd.to_datetime\<close> makes it the timestamp of that day's midnight.
\<close>

definition to_datetime :: "int \<Rightarrow> int" where
  "to_datetime day = day * 86400000000000"

definition ts_ge :: "int option \<Rightarrow> int \<Rightarrow> bool" where
  "ts_ge cell t = (case cell of None \<Rightarrow> False | Some d \<Rightarrow> d \<ge> t)"

definition ts_le :: "int option \<Rightarrow> int \<Rightarrow> bool" where
  "ts_le cell t = (case cell of None \<Rightarrow> False | Some d \<Rightarrow> d \<le> t)"

text \<open>Lines 268-271 and 280-283: the rows between the two days.\<close>

definition date_filter :: "int \<Rightarrow> int \<Rightarrow> permit list \<Rightarrow> permit list" where
  "date_filter start_date end_date df =
     select_rows df
       (mask_and (map (\<lambda>r. ts_ge (Created_Date r) (to_datetime start_date)) df)
                 (map (\<lambda>r. ts_le (Created_Date r) (to_datetime end_date)) df))"

text \<open>
  Lines 257-287: \<open>has_date\<close> says whether the sheet has a Created Date column; the result
  is the pair \<open>(df, filtered_df)\<close>.
\<close>

definition date_stage ::
  "bool \<Rightarrow> int \<times> int \<Rightarrow> int \<times> int \<Rightarrow> permit list \<Rightarrow> permit list \<times> permit list" where
  "date_stage has_date global_range results_range df_raw =
     (if has_date then
        (let df = date_filter (fst global_range) (snd global_range) df_raw
         in (df, date_filter (fst results_range) (snd results_range) df))
      else (df_raw, df_raw))"

text \<open>
  The condition of the date filter as the specification words it: the Created Date of
  the row parsed, to a timestamp \<open>d\<close> with \<open>start \<le> d \<le> end\<close>, both bounds included.
\<close>

definition created_between :: "int \<Rightarrow> int \<Rightarrow> permit \<Rightarrow> bool" where
  "created_between start_date end_date r =
     (case Created_Date r of
        None \<Rightarrow> False
      | Some d \<Rightarrow> to_datetime start_date \<le> d \<and> d \<le> to_datetime end_date)"

text \<open>\<open>Series.isin(values)\<close> on one cell; a missing cell is in no list of strings.\<close>

definition isin :: "string option \<Rightarrow> string list \<Rightarrow> bool" where
  "isin cell vals = (case cell of None \<Rightarrow> False | Some s \<Rightarrow> s \<in> set vals)"

text \<open>Lines 303-304: the department multiselect.\<close>

definition department_filter :: "string list \<Rightarrow> permit list \<Rightarrow> permit list" where
  "department_filter departments filtered_df =
     (if departments \<noteq> [] then
        select_rows filtered_df (map (\<lambda>r. isin (Department r) departments) filtered_df)
      else filtered_df)"

section \<open>Summary table\<close>

definition dept_cols :: "string list" where
  "dept_cols = [''CES ELECTRICAL'', ''CIVIL'', ''FIRE'', ''HSEF'', ''INSTRUMENTATION'',
                ''MECHANICAL'', ''PROCESS'']"

definition all_columns :: "string list" where
  "all_columns = dept_cols @ [''EXPIRED'', ''PENDING CLOSURE'', ''CLOSED'']"

text \<open>The lambda of lines 371-378, on a text cell (a missing cell is neither status).\<close>

definition classify_status :: "string option \<Rightarrow> string option" where
  "classify_status x =
     (case x of
        None \<Rightarrow> None
      | Some s \<Rightarrow>
          if upper (strip s) = ''PENDING CLOSURE'' then Some ''PENDING CLOSURE''
          else if upper (strip s) = ''EXPIRED'' then Some ''EXPIRED''
          else None)"

text \<open>
  Lines 363-381 on \<open>filtered_df\<close>. \<open>map_area\<close> is \<open>utils.helpers.map_area\<close>, which is not
  part of the source at hand: it is a parameter, a function from the Responsibility
  Areas cell to an area label.
\<close>

definition prepare :: "(string option \<Rightarrow> string) \<Rightarrow> permit list \<Rightarrow> permit list" where
  "prepare map_area filtered_df =
     add_closed
       (map (\<lambda>r. r\<lparr>Status := classify_status (Workflow_State r)\<rparr>)
         (map (\<lambda>r. r\<lparr>Department := str_upper (Department r)\<rparr>)
           (map (\<lambda>r. r\<lparr>Area := map_area (Responsibility_Areas r)\<rparr>) filtered_df)))"

text \<open>
  A table of counts: the index labels (the areas) and the columns, each a name with one
  number per label.
\<close>

record frame =
  labels :: "string list"
  cols :: "(string \<times> int list) list"

definition count_rows :: "(permit \<Rightarrow> bool) \<Rightarrow> permit list \<Rightarrow> int" where
  "count_rows P df = int (length (filter P df))"

text \<open>The keys of a group-by, sorted, each once.\<close>

definition group_keys :: "string list \<Rightarrow> string list" where
  "group_keys ks = sort (remdups ks)"

text \<open>Line 382: per area, the number of rows with \<open>Closed\<close>.\<close>

definition closed_counts :: "permit list \<Rightarrow> (string \<times> int) list" where
  "closed_counts df =
     map (\<lambda>a. (a, count_rows (\<lambda>r. Area r = a \<and> Closed r) df)) (group_keys (map Area df))"

text \<open>
  Lines 385-392: the groups are the pairs (Area, Department) of the rows that have a
  Department; \<open>count\<close> counts the rows of the group whose Permit Number is present;
  \<open>reindex\<close> keeps the columns of \<open>dept_cols\<close> and fills the others with 0.
\<close>

definition pivot :: "permit list \<Rightarrow> frame" where
  "pivot df =
     (let areas = group_keys (map Area (filter (\<lambda>r. Department r \<noteq> None) df))
      in \<lparr>labels = areas,
          cols = map (\<lambda>c. (c, map (\<lambda>a. count_rows (\<lambda>r. Area r = a \<and> Department r = Some c
                                                     \<and> Permit_Number r \<noteq> None) df) areas))
                     dept_cols\<rparr>)"

text \<open>Line 394: the rows that have a Status, counted per (Area, Status).\<close>

definition status_counts :: "permit list \<Rightarrow> frame" where
  "status_counts df =
     (let with_status = filter (\<lambda>r. Status r \<noteq> None) df;
          areas = group_keys (map Area with_status)
      in \<lparr>labels = areas,
          cols = map (\<lambda>st. (st, map (\<lambda>a. count_rows (\<lambda>r. Area r = a \<and> Status r = Some st)
                                          with_status) areas))
                     (group_keys (map (\<lambda>r. case Status r of Some st \<Rightarrow> st | None \<Rightarrow> [])
                                      with_status))\<rparr>)"

text \<open>
  A column read at new index labels: the number at the label, and the fill value (the
  0 of \<open>fillna(0)\<close>) where the column had no such label.
\<close>

definition realign :: "string list \<Rightarrow> string list \<Rightarrow> int list \<Rightarrow> int list" where
  "realign new_labels old_labels xs =
     map (\<lambda>a. case map_of (zip old_labels xs) a of Some v \<Rightarrow> v | None \<Rightarrow> 0) new_labels"

text \<open>Line 397: \<open>pivot.join(status_counts, how="outer").fillna(0).astype(int)\<close>.\<close>

definition join_outer :: "frame \<Rightarrow> frame \<Rightarrow> frame" where
  "join_outer f g =
     (let ls = group_keys (labels f @ labels g)
      in \<lparr>labels = ls,
          cols = map (\<lambda>(c, xs). (c, realign ls (labels f) xs)) (cols f)
               @ map (\<lambda>(c, xs). (c, realign ls (labels g) xs)) (cols g)\<rparr>)"

text \<open>
  Lines 398-399: the left join with \<open>closed_counts\<close> and the renaming of its column.
  Every label of the table is an area of \<open>filtered_df\<close> and so a key of
  \<open>closed_counts\<close>; the 0 for an absent key is never read.
\<close>

definition join_closed :: "frame \<Rightarrow> (string \<times> int) list \<Rightarrow> frame" where
  "join_closed f cc =
     f\<lparr>cols := cols f @
         [(''CLOSED'', map (\<lambda>a. case map_of cc a of Some v \<Rightarrow> v | None \<Rightarrow> 0) (labels f))]\<rparr>"

text \<open>Lines 402-404: a column of zeros for each of the three names the table lacks.\<close>

fun add_missing :: "string list \<Rightarrow> frame \<Rightarrow> frame" where
  "add_missing [] f = f"
| "add_missing (c # cs) f =
     add_missing cs
       (if c \<notin> set (map fst (cols f))
        then f\<lparr>cols := cols f @ [(c, replicate (length (labels f)) 0)]\<rparr>
        else f)"

datatype df_error = KeyError string

text \<open>\<open>frame[names]\<close>: the named columns in the order asked, or \<open>KeyError\<close>.\<close>

fun select_cols :: "string list \<Rightarrow> (string \<times> int list) list \<Rightarrow> df_error + (string \<times> int list) list" where
  "select_cols [] cs = Inr []"
| "select_cols (n # ns) cs =
     (case map_of cs n of
        None \<Rightarrow> Inl (KeyError n)
      | Some xs \<Rightarrow>
          (case select_cols ns cs of
             Inl e \<Rightarrow> Inl e
           | Inr rest \<Rightarrow> Inr ((n, xs) # rest)))"

text \<open>
  Lines 406-408: the sums of the ten columns, appended as the row labelled TOTAL. Every
  column of the table is one of the ten; the 0 for a column without a sum is never read.
\<close>

definition append_total :: "frame \<Rightarrow> df_error + frame" where
  "append_total f =
     (case select_cols all_columns (cols f) of
        Inl e \<Rightarrow> Inl e
      | Inr picked \<Rightarrow>
          (let total_row = map (\<lambda>(c, xs). (c, sum_list xs)) picked
           in Inr \<lparr>labels = labels f @ [''TOTAL''],
                   cols = map (\<lambda>(c, xs). (c, xs @ [case map_of total_row c of
                                                      Some v \<Rightarrow> v | None \<Rightarrow> 0]))
                              (cols f)\<rparr>))"

definition final_table :: "permit list \<Rightarrow> df_error + frame" where
  "final_table df =
     append_total
       (add_missing [''EXPIRED'', ''PENDING CLOSURE'', ''CLOSED'']
         (join_closed (join_outer (pivot df) (status_counts df)) (closed_counts df)))"

text \<open>Line 418: the table shown, with the columns picked in the multiselect.\<close>

definition display_table :: "string list \<Rightarrow> frame \<Rightarrow> df_error + frame" where
  "display_table selected_columns f =
     (case select_cols selected_columns (cols f) of
        Inl e \<Rightarrow> Inl e
      | Inr picked \<Rightarrow> Inr \<lparr>labels = labels f, cols = picked\<rparr>)"

text \<open>Lines 363-418 together, from \<open>filtered_df\<close> to the table shown.\<close>

definition summary ::
  "(string option \<Rightarrow> string) \<Rightarrow> string list \<Rightarrow> permit list \<Rightarrow> df_error + frame" where
  "summary map_area selected_columns filtered_df =
     (case final_table (prepare map_area filtered_df) of
        Inl e \<Rightarrow> Inl e
      | Inr t \<Rightarrow> display_table selected_columns t)"


section \<open>Plant summary\<close>


text \<open>
  The boolean column of lines 442-463 for the plant selected, or the error raised.
  \<open>ra_dtype\<close> is the dtype of the Responsibility Areas column. Every branch starts by
  reading \<open>filtered_df["Responsibility Areas"].str\<close>, so the error of the accessor
  comes first in each.
\<close>

definition plant_mask :: "dtype \<Rightarrow> string \<Rightarrow> permit list \<Rightarrow> py_error + bool list" where
  "plant_mask ra_dtype selected_plant filtered_df =
     (case str_accessor ra_dtype (map Responsibility_Areas filtered_df) of
        Inl e \<Rightarrow> Inl e
      | Inr areas \<Rightarrow>
          if selected_plant = ''CPP'' then
            Inr (mask_or (str_startswith ''CPP'' areas) (str_startswith ''Power Plant'' areas))
          else if selected_plant = ''NCU'' then
            (case str_contains ''CCR(Safety District-2)'' True areas of
               Inl e \<Rightarrow> Inl e
             | Inr m \<Rightarrow>
                 Inr (mask_or (mask_or (str_startswith ''NCU'' areas) (str_startswith ''CCR'' areas))
                              m))
          else if selected_plant = ''PP'' then
            Inr (str_startswith ''PP'' areas)
          else str_contains selected_plant False areas)"

text \<open>The label written over \<open>Area\<close> for the three plants with a rule of their own.\<close>

definition plant_label :: "string \<Rightarrow> string option" where
  "plant_label selected_plant =
     (if selected_plant = ''CPP'' then Some ''CPP (Including Power Plant Areas)''
      else if selected_plant = ''NCU'' then Some ''NCU (Including CCR Areas)''
      else if selected_plant = ''PP'' then Some ''PP''
      else None)"

definition plant_df :: "dtype \<Rightarrow> string \<Rightarrow> permit list \<Rightarrow> py_error + permit list" where
  "plant_df ra_dtype selected_plant filtered_df =
     (case plant_mask ra_dtype selected_plant filtered_df of
        Inl e \<Rightarrow> Inl e
      | Inr keep \<Rightarrow>
          Inr (map (\<lambda>r. case plant_label selected_plant of
                          Some l \<Rightarrow> r\<lparr>Area := l\<rparr> | None \<Rightarrow> r)
                   (select_rows filtered_df keep)))"


section \<open>Sample data\<close>

text \<open>
  Concrete values for the worked instances below. \<open>sample_digest\<close> stands where the
  digest function is needed as a concrete function; no theorem depends on what it
  computes.
\<close>

definition sample_digest :: "string \<Rightarrow> string" where
  "sample_digest p = ''sha256:'' @ p"

definition sample_app :: app where
  "sample_app = \<lparr>USERS = load_users sample_digest None, user_db = None, session = initial_auth\<rparr>"

definition sample_permit :: permit where
  "sample_permit = \<lparr>Permit_Number = Some ''P-1'', Department = Some ''Civil'',
     Responsibility_Areas = Some ''NCU-1'', Workflow_State = Some ''Open'',
     Created_Date = Some 0, Closed = False, Area = [], Status = None\<rparr>"

text \<open>An area mapper for the worked instances: it tells the NCU areas from the others.\<close>

definition sample_map_area :: "string option \<Rightarrow> string" where
  "sample_map_area cell =
     (case cell of None \<Rightarrow> ''OTHERS'' | Some s \<Rightarrow> if startswith s ''NCU'' then ''NCU'' else ''OTHERS'')"

section \<open>Properties of registration and login\<close>

text \<open>
  C7. \<open>register_user\<close> returns failure with one of its two messages and leaves the
  whole state as it was (the dictionary and the file included) exactly when the user
  name is already a key of the store, or the user name is empty, or the password is
  empty. In every other case it succeeds, the name is a key of the new store, the
  store has changed and the file holds the new store.
\<close>

theorem register_user_rejects_iff:
  "(let ((ok, msg), s') = register_user H u n p r s
    in ((\<not> ok \<and> msg \<in> {''Username already exists!'', ''Username and password are required!''}
          \<and> s' = s)
        = (USERS s u \<noteq> None \<or> u = [] \<or> p = []))
     \<and> ((ok \<and> USERS s' u \<noteq> None \<and> USERS s' \<noteq> USERS s \<and> user_db s' = Some (USERS s'))
        = (\<not> (USERS s u \<noteq> None \<or> u = [] \<or> p = []))))"
  by (auto simp: register_user_def save_users_def Let_def fun_eq_iff)

theorem register_user_rejects_iff_witness:
  "fst (register_user sample_digest ''bob'' ''Bob'' ''pw1'' ''user'' sample_app)
     = (True, ''User bob registered successfully!'')
   \<and> fst (register_user sample_digest ''bob'' ''Bob'' ''pw2'' ''user''
            (snd (register_user sample_digest ''bob'' ''Bob'' ''pw1'' ''user'' sample_app)))
     = (False, ''Username already exists!'')
   \<and> snd (register_user sample_digest ''bob'' ''Bob'' ''pw2'' ''user''
            (snd (register_user sample_digest ''bob'' ''Bob'' ''pw1'' ''user'' sample_app)))
     = snd (register_user sample_digest ''bob'' ''Bob'' ''pw1'' ''user'' sample_app)"
  using register_user_rejects_iff [of sample_digest "''bob''" "''Bob''" "''pw2''" "''user''"
      "snd (register_user sample_digest ''bob'' ''Bob'' ''pw1'' ''user'' sample_app)"]
  by (simp add: register_user_def save_users_def sample_app_def load_users_def
        default_users_def Let_def)

text \<open>
  C9. When the store has an entry for the user name and the digest of the password is
  the entry's hash, \<open>authenticate\<close> leaves the session authenticated as that user with
  \<open>failed_attempts\<close> 0 and asks for a rerun, whatever the session was before (the
  counter of the old session may have any value, 3 and more included).
\<close>

theorem authenticate_resets_counter:
  assumes "us u = Some usr" and "password_hash usr = H p"
  shows "authenticated (fst (authenticate H us u p a))
       \<and> failed_attempts (fst (authenticate H us u p a)) = 0
       \<and> username (fst (authenticate H us u p a)) = Some u
       \<and> snd (authenticate H us u p a) = Rerun"
  using assms by (simp add: authenticate_def)

theorem authenticate_resets_counter_witness:
  "authenticated (fst (authenticate sample_digest (default_users sample_digest)
      ''admin'' ''admin123'' (initial_auth\<lparr>failed_attempts := 5\<rparr>)))
   \<and> failed_attempts (fst (authenticate sample_digest (default_users sample_digest)
      ''admin'' ''admin123'' (initial_auth\<lparr>failed_attempts := 5\<rparr>))) = 0"
  using authenticate_resets_counter [of "default_users sample_digest" "''admin''"
      "\<lparr>name = ''Administrator'', password_hash = sample_digest ''admin123'',
        role = Some ''admin''\<rparr>"
      sample_digest "''admin123''" "initial_auth\<lparr>failed_attempts := 5\<rparr>"]
  by (simp add: default_users_def)

text \<open>
  C4. A session of the default store, whatever the digest function: three submissions
  of the login form for a user that does not exist bring \<open>failed_attempts\<close> to 3 and
  leave the session unauthenticated; a fourth submission, with the administrator's
  name and password, leaves it authenticated. The third failure stops that script
  run only.
\<close>

theorem lockout_not_enforced:
  "failed_attempts (login_runs H (default_users H) initial_auth
       [(''nobody'', ''x''), (''nobody'', ''x''), (''nobody'', ''x'')]) = 3
   \<and> \<not> authenticated (login_runs H (default_users H) initial_auth
       [(''nobody'', ''x''), (''nobody'', ''x''), (''nobody'', ''x'')])
   \<and> authenticated (login_runs H (default_users H) initial_auth
       [(''nobody'', ''x''), (''nobody'', ''x''), (''nobody'', ''x''), (''admin'', ''admin123'')])"
  by (simp add: login_runs_def login_run_def authenticate_def login_failed_def
        default_users_def initial_auth_def)

section \<open>Properties of the filter stage\<close>

lemma select_rows_map: "select_rows xs (map P xs) = filter P xs"
  by (induction xs) (simp_all add: select_rows_def)

lemma mask_and_map: "mask_and (map P xs) (map Q xs) = map (\<lambda>x. P x \<and> Q x) xs"
  by (induction xs) (simp_all add: mask_and_def)


lemma date_filter_filter:
  "date_filter start_date end_date df = filter (created_between start_date end_date) df"
proof -
  have h: "\<And>r. (ts_ge (Created_Date r) (to_datetime start_date)
                 \<and> ts_le (Created_Date r) (to_datetime end_date))
      = created_between start_date end_date r"
    by (simp add: ts_ge_def ts_le_def created_between_def split: option.splits)
  show ?thesis
    by (simp add: date_filter_def mask_and_map select_rows_map h)
qed

text \<open>
  C5. The date filter between the days \<open>start_date\<close> and \<open>end_date\<close> keeps, in their
  order, exactly the rows whose Created Date is a timestamp \<open>d\<close> with
  \<open>start \<le> d \<le> end\<close>, where \<open>start\<close> and \<open>end\<close> are the timestamps of the two days;
  a row whose Created Date did not parse is left out. On a sheet with a Created Date
  column, \<open>df\<close> is the raw sheet so filtered by the global range and \<open>filtered_df\<close> is
  \<open>df\<close> so filtered by the results range.
\<close>

theorem date_filter_inclusive:
  "date_filter start_date end_date df = filter (created_between start_date end_date) df
   \<and> set (date_filter start_date end_date df)
       = {r \<in> set df. \<exists>d. Created_Date r = Some d
                         \<and> to_datetime start_date \<le> d \<and> d \<le> to_datetime end_date}
   \<and> date_stage True (global_start, global_end) (results_start, results_end) df_raw
       = (filter (created_between global_start global_end) df_raw,
          filter (created_between results_start results_end)
            (filter (created_between global_start global_end) df_raw))"
  by (auto simp: date_filter_filter date_stage_def Let_def created_between_def
        split: option.splits)

theorem date_filter_inclusive_witness:
  "date_filter 10 20
     [sample_permit\<lparr>Created_Date := Some (to_datetime 10)\<rparr>,
      sample_permit\<lparr>Created_Date := None\<rparr>,
      sample_permit\<lparr>Created_Date := Some (to_datetime 20)\<rparr>,
      sample_permit\<lparr>Created_Date := Some (to_datetime 20 + 1)\<rparr>,
      sample_permit\<lparr>Created_Date := Some (to_datetime 10 - 1)\<rparr>]
   = [sample_permit\<lparr>Created_Date := Some (to_datetime 10)\<rparr>,
      sample_permit\<lparr>Created_Date := Some (to_datetime 20)\<rparr>]"
proof -
  from date_filter_inclusive [of 10 20
     "[sample_permit\<lparr>Created_Date := Some (to_datetime 10)\<rparr>,
      sample_permit\<lparr>Created_Date := None\<rparr>,
      sample_permit\<lparr>Created_Date := Some (to_datetime 20)\<rparr>,
      sample_permit\<lparr>Created_Date := Some (to_datetime 20 + 1)\<rparr>,
      sample_permit\<lparr>Created_Date := Some (to_datetime 10 - 1)\<rparr>]"]
  have "date_filter 10 20
     [sample_permit\<lparr>Created_Date := Some (to_datetime 10)\<rparr>,
      sample_permit\<lparr>Created_Date := None\<rparr>,
      sample_permit\<lparr>Created_Date := Some (to_datetime 20)\<rparr>,
      sample_permit\<lparr>Created_Date := Some (to_datetime 20 + 1)\<rparr>,
      sample_permit\<lparr>Created_Date := Some (to_datetime 10 - 1)\<rparr>]
    = filter (created_between 10 20)
     [sample_permit\<lparr>Created_Date := Some (to_datetime 10)\<rparr>,
      sample_permit\<lparr>Created_Date := None\<rparr>,
      sample_permit\<lparr>Created_Date := Some (to_datetime 20)\<rparr>,
      sample_permit\<lparr>Created_Date := Some (to_datetime 20 + 1)\<rparr>,
      sample_permit\<lparr>Created_Date := Some (to_datetime 10 - 1)\<rparr>]"
    by (rule conjunct1)
  then show ?thesis
    by (simp add: created_between_def to_datetime_def)
qed

text \<open>
  C6. With no department selected the department filter returns the rows unchanged;
  with a selection it keeps, in their order, exactly the rows whose Department cell is
  one of the selected strings, compared as stored.
\<close>

theorem department_filter_exact:
  "(departments = [] \<longrightarrow> department_filter departments df = df)
   \<and> (departments \<noteq> [] \<longrightarrow>
        department_filter departments df =
          filter (\<lambda>r. \<exists>d \<in> set departments. Department r = Some d) df)"
proof -
  have h: "\<And>r. isin (Department r) departments = (\<exists>d \<in> set departments. Department r = Some d)"
    by (auto simp: isin_def split: option.splits)
  show ?thesis
    by (simp add: department_filter_def select_rows_map h)
qed

theorem department_filter_exact_witness:
  "department_filter [] [sample_permit, sample_permit\<lparr>Department := None\<rparr>]
     = [sample_permit, sample_permit\<lparr>Department := None\<rparr>]
   \<and> department_filter [''Civil'', ''Fire'']
       [sample_permit, sample_permit\<lparr>Department := Some ''CIVIL''\<rparr>,
        sample_permit\<lparr>Department := None\<rparr>, sample_permit\<lparr>Department := Some ''Fire''\<rparr>]
     = [sample_permit, sample_permit\<lparr>Department := Some ''Fire''\<rparr>]"
  using department_filter_exact [of "[]" "[sample_permit, sample_permit\<lparr>Department := None\<rparr>]"]
    department_filter_exact [of "[''Civil'', ''Fire'']"
       "[sample_permit, sample_permit\<lparr>Department := Some ''CIVIL''\<rparr>,
        sample_permit\<lparr>Department := None\<rparr>, sample_permit\<lparr>Department := Some ''Fire''\<rparr>]"]
  by (simp add: sample_permit_def)

section \<open>Properties of the Closed column\<close>

lemma prepare_map:
  "prepare map_area df =
     map (\<lambda>r. r\<lparr>Area := map_area (Responsibility_Areas r),
                 Department := str_upper (Department r),
                 Status := classify_status (Workflow_State r),
                 Closed := cell_eq (str_upper (Workflow_State r)) ''CLOSED''\<rparr>) df"
  by (simp add: prepare_def add_closed_def)

text \<open>
  C2, as stated, fails: the Workflow State \<open>'' closed ''\<close>, which is \<open>CLOSED\<close> once
  trimmed and upper-cased, gets \<open>Closed = False\<close>.
\<close>

theorem closed_not_trimmed:
  "map Closed (add_closed [sample_permit\<lparr>Workflow_State := Some '' closed ''\<rparr>]) = [False]
   \<and> upper (strip '' closed '') = ''CLOSED''"
  by code_simp

text \<open>
  C2, amended. At both places that compute it (on the raw sheet and again on
  \<open>filtered_df\<close>), \<open>Closed\<close> of a row is true exactly when the Workflow State cell is a
  string whose upper-casing is \<open>CLOSED\<close>; the cell is not trimmed, and a missing cell
  gives false.
\<close>

theorem closed_iff_upper:
  "map Closed (add_closed df)
     = map (\<lambda>r. \<exists>s. Workflow_State r = Some s \<and> upper s = ''CLOSED'') df
   \<and> map Closed (prepare map_area df)
     = map (\<lambda>r. \<exists>s. Workflow_State r = Some s \<and> upper s = ''CLOSED'') df"
  by (auto simp: prepare_map add_closed_def cell_eq_def str_upper_def split: option.splits)

theorem closed_iff_upper_witness:
  "map Closed (add_closed
     [sample_permit\<lparr>Workflow_State := Some ''closed''\<rparr>,
      sample_permit\<lparr>Workflow_State := Some ''ClOsEd''\<rparr>,
      sample_permit\<lparr>Workflow_State := Some ''closed ''\<rparr>,
      sample_permit\<lparr>Workflow_State := None\<rparr>])
   = [True, True, False, False]"
proof -
  have u: "upper ''closed'' = ''CLOSED''" "upper ''ClOsEd'' = ''CLOSED''"
    "upper ''closed '' \<noteq> ''CLOSED''"
    by code_simp+
  from closed_iff_upper [of "[sample_permit\<lparr>Workflow_State := Some ''closed''\<rparr>,
      sample_permit\<lparr>Workflow_State := Some ''ClOsEd''\<rparr>,
      sample_permit\<lparr>Workflow_State := Some ''closed ''\<rparr>,
      sample_permit\<lparr>Workflow_State := None\<rparr>]"] u
  show ?thesis by simp
qed

section \<open>Properties of the summary table\<close>


lemma map_of_keyed: "map_of (map (\<lambda>k. (k, f k)) ks) c = (if c \<in> set ks then Some (f c) else None)"
  by (induction ks) simp_all

lemma map_of_retag:
  "map_of (map (\<lambda>(c, xs). (c, h c xs)) cs) n = map_option (h n) (map_of cs n)"
  by (induction cs) auto

lemma select_cols_present:
  "(\<And>n. n \<in> set ns \<Longrightarrow> map_of cs n \<noteq> None) \<Longrightarrow>
   select_cols ns cs = Inr (map (\<lambda>n. (n, the (map_of cs n))) ns)"
  by (induction ns) (auto split: option.splits sum.splits)

lemma names_add_missing:
  "set (map fst (cols (add_missing ns f))) = set ns \<union> set (map fst (cols f))"
  by (induction ns arbitrary: f) auto

lemma labels_add_missing: "labels (add_missing ns f) = labels f"
  by (induction ns arbitrary: f) auto

lemma length_add_missing:
  "(\<And>c xs. (c, xs) \<in> set (cols f) \<Longrightarrow> length xs = length (labels f)) \<Longrightarrow>
   (c, xs) \<in> set (cols (add_missing ns f)) \<Longrightarrow> length xs = length (labels f)"
proof (induction ns arbitrary: f)
  case Nil
  then show ?case by simp
next
  case (Cons n ns)
  let ?g = "if n \<notin> set (map fst (cols f))
            then f\<lparr>cols := cols f @ [(n, replicate (length (labels f)) 0)]\<rparr> else f"
  have g: "\<And>c xs. (c, xs) \<in> set (cols ?g) \<Longrightarrow> length xs = length (labels ?g)"
    using Cons.prems(1) by (auto split: if_splits)
  have "(c, xs) \<in> set (cols (add_missing ns ?g))"
    using Cons.prems(2) by simp
  from Cons.IH [OF g this] show ?case by (simp split: if_splits)
qed

text \<open>
  The table before the TOTAL row has the ten columns, each as long as the index.
\<close>

lemma joined_names:
  "set all_columns \<subseteq> set (map fst (cols
     (add_missing [''EXPIRED'', ''PENDING CLOSURE'', ''CLOSED'']
         (join_closed (join_outer (pivot df) (status_counts df)) (closed_counts df)))))"
proof -
  have "map fst (cols (pivot df)) = dept_cols"
    by (simp add: pivot_def Let_def comp_def)
  then have "map fst (cols (join_closed (join_outer (pivot df) (status_counts df)) (closed_counts df)))
      = dept_cols @ map fst (cols (status_counts df)) @ [''CLOSED'']"
    by (simp add: join_closed_def join_outer_def Let_def comp_def case_prod_unfold)
  then have "set (map fst (cols (join_closed (join_outer (pivot df) (status_counts df))
                 (closed_counts df))))
      = set dept_cols \<union> set (map fst (cols (status_counts df))) \<union> {''CLOSED''}"
    by (simp only: set_append list.set) auto
  then show ?thesis
    unfolding names_add_missing all_columns_def by (simp only: set_append list.set) auto
qed

lemma joined_lengths:
  assumes "(c, xs) \<in> set (cols
     (add_missing [''EXPIRED'', ''PENDING CLOSURE'', ''CLOSED'']
         (join_closed (join_outer (pivot df) (status_counts df)) (closed_counts df))))"
  shows "length xs = length (group_keys (labels (pivot df) @ labels (status_counts df)))"
proof -
  let ?j = "join_closed (join_outer (pivot df) (status_counts df)) (closed_counts df)"
  have "\<And>c xs. (c, xs) \<in> set (cols ?j) \<Longrightarrow> length xs = length (labels ?j)"
    by (auto simp: join_closed_def join_outer_def Let_def realign_def)
  from length_add_missing [OF this assms] show ?thesis
    by (simp add: join_closed_def join_outer_def Let_def)
qed

lemma append_total_present:
  assumes "set all_columns \<subseteq> set (map fst (cols f))"
  shows "\<exists>g. append_total f = Inr g \<and> labels g = labels f @ [''TOTAL'']
           \<and> (\<forall>n \<in> set all_columns. \<exists>xs. map_of (cols f) n = Some xs
                  \<and> map_of (cols g) n = Some (xs @ [sum_list xs]))"
proof -
  have pres: "\<And>n. n \<in> set all_columns \<Longrightarrow> map_of (cols f) n \<noteq> None"
    using assms by (auto simp: map_of_eq_None_iff)
  have sel: "select_cols all_columns (cols f)
               = Inr (map (\<lambda>n. (n, the (map_of (cols f) n))) all_columns)"
    by (rule select_cols_present) (rule pres)
  have tot: "map (\<lambda>(c, xs). (c, sum_list xs)) (map (\<lambda>n. (n, the (map_of (cols f) n))) all_columns)
               = map (\<lambda>n. (n, sum_list (the (map_of (cols f) n)))) all_columns"
    by simp
  show ?thesis
    using pres
    by (fastforce simp: append_total_def sel Let_def map_of_retag map_of_keyed comp_def)
qed

text \<open>
  C3. For every \<open>filtered_df\<close> and every selection among the ten columns, the table
  shown exists, its columns are the selected ones in the order selected, its last
  label is TOTAL, and every column is the numbers of the rows above followed by their
  sum.
\<close>

theorem total_row_is_column_sum:
  assumes "set selected_columns \<subseteq> set all_columns"
  shows "\<exists>t ls. summary map_area selected_columns df = Inr t
           \<and> map fst (cols t) = selected_columns
           \<and> labels t = ls @ [''TOTAL'']
           \<and> (\<forall>(c, xs) \<in> set (cols t).
                 \<exists>ys. xs = ys @ [sum_list ys] \<and> length ys = length ls)"
proof -
  let ?d = "prepare map_area df"
  let ?f = "add_missing [''EXPIRED'', ''PENDING CLOSURE'', ''CLOSED'']
              (join_closed (join_outer (pivot ?d) (status_counts ?d)) (closed_counts ?d))"
  let ?ls = "group_keys (labels (pivot ?d) @ labels (status_counts ?d))"
  have lf: "labels ?f = ?ls"
    by (simp add: labels_add_missing join_closed_def join_outer_def Let_def)
  obtain g where g: "append_total ?f = Inr g" "labels g = labels ?f @ [''TOTAL'']"
    and gc: "\<forall>n \<in> set all_columns. \<exists>xs. map_of (cols ?f) n = Some xs
                  \<and> map_of (cols g) n = Some (xs @ [sum_list xs])"
    using append_total_present [OF joined_names [of ?d]] by blast
  have pres: "\<And>n. n \<in> set selected_columns \<Longrightarrow> map_of (cols g) n \<noteq> None"
    using gc assms by fastforce
  have sel: "select_cols selected_columns (cols g)
               = Inr (map (\<lambda>n. (n, the (map_of (cols g) n))) selected_columns)"
    by (rule select_cols_present) (rule pres)
  let ?t = "\<lparr>labels = labels g, cols = map (\<lambda>n. (n, the (map_of (cols g) n))) selected_columns\<rparr>"
  have s: "summary map_area selected_columns df = Inr ?t"
    by (simp add: summary_def final_table_def g display_table_def sel del: add_missing.simps)
  have names: "map fst (cols ?t) = selected_columns"
    by (simp add: comp_def)
  have cells: "\<exists>ys. xs = ys @ [sum_list ys] \<and> length ys = length ?ls"
    if "(c, xs) \<in> set (cols ?t)" for c xs
  proof -
    from that have c: "c \<in> set selected_columns" and xs: "xs = the (map_of (cols g) c)"
      by auto
    from c assms gc obtain ys where ys: "map_of (cols ?f) c = Some ys"
      "map_of (cols g) c = Some (ys @ [sum_list ys])"
      by blast
    from ys(1) have "(c, ys) \<in> set (cols ?f)"
      by (rule map_of_SomeD)
    then have "length ys = length ?ls"
      by (rule joined_lengths)
    with xs ys(2) show ?thesis by simp
  qed
  show ?thesis
    using s names cells g(2) lf by (intro exI [of _ ?t] exI [of _ ?ls]) auto
qed

theorem total_row_is_column_sum_witness:
  "set [''CIVIL'', ''CLOSED''] \<subseteq> set all_columns
   \<and> summary sample_map_area [''CIVIL'', ''CLOSED'']
       [sample_permit\<lparr>Workflow_State := Some ''Closed''\<rparr>,
        sample_permit\<lparr>Responsibility_Areas := Some ''PP-1'', Department := Some ''civil''\<rparr>,
        sample_permit\<lparr>Department := Some ''Fire''\<rparr>]
     = Inr \<lparr>labels = [''NCU'', ''OTHERS'', ''TOTAL''],
            cols = [(''CIVIL'', [1, 1, 2]), (''CLOSED'', [1, 0, 1])]\<rparr>"
proof -
  have a: "set [''CIVIL'', ''CLOSED''] \<subseteq> set all_columns"
    by (simp add: all_columns_def dept_cols_def)
  have b: "summary sample_map_area [''CIVIL'', ''CLOSED'']
       [sample_permit\<lparr>Workflow_State := Some ''Closed''\<rparr>,
        sample_permit\<lparr>Responsibility_Areas := Some ''PP-1'', Department := Some ''civil''\<rparr>,
        sample_permit\<lparr>Department := Some ''Fire''\<rparr>]
     = Inr \<lparr>labels = [''NCU'', ''OTHERS'', ''TOTAL''],
            cols = [(''CIVIL'', [1, 1, 2]), (''CLOSED'', [1, 0, 1])]\<rparr>"
    by code_simp
  from total_row_is_column_sum [OF a, of sample_map_area
       "[sample_permit\<lparr>Workflow_State := Some ''Closed''\<rparr>,
        sample_permit\<lparr>Responsibility_Areas := Some ''PP-1'', Department := Some ''civil''\<rparr>,
        sample_permit\<lparr>Department := Some ''Fire''\<rparr>]"] a b
  show ?thesis by simp
qed








section \<open>Properties of the plant summary\<close>

text \<open>
  C1. With NCU selected, a row whose Responsibility Areas is
  \<open>Unit CCR(Safety District-2)\<close> is not in \<open>plant_df\<close>: the parentheses of the pattern
  are a group, so the pattern finds \<open>CCRSafety District-2\<close> and not the text with the
  parentheses in it. The sheet is the one row in each case, so its column is a text
  column.
\<close>

theorem ncu_literal_not_matched:
  "plant_df
     (column_dtype (map Responsibility_Areas
        [sample_permit\<lparr>Responsibility_Areas := Some ''Unit CCR(Safety District-2)''\<rparr>]))
     ''NCU'' [sample_permit\<lparr>Responsibility_Areas := Some ''Unit CCR(Safety District-2)''\<rparr>]
     = Inr []
   \<and> plant_df
       (column_dtype (map Responsibility_Areas
          [sample_permit\<lparr>Responsibility_Areas := Some ''Unit CCRSafety District-2''\<rparr>]))
       ''NCU'' [sample_permit\<lparr>Responsibility_Areas := Some ''Unit CCRSafety District-2''\<rparr>]
     = Inr [sample_permit\<lparr>Responsibility_Areas := Some ''Unit CCRSafety District-2'',
                          Area := ''NCU (Including CCR Areas)''\<rparr>]"
  by code_simp









end
